theory Spec2Isabelle
  imports Main "HOL-Library.Multiset"
begin

section \<open>The drafts hook \<open>useTournamentDrafts\<close> over the remote table \<open>tournament_drafts\<close>\<close>

text \<open>
  The hook in \<^verbatim>\<open>src/hooks/useTournamentDrafts.ts\<close> keeps three pieces of React state
  (\<open>drafts\<close>, \<open>isLoading\<close>, \<open>error\<close>) and talks to one remote table through the
  Supabase client. It holds no local copy of a draft besides the list \<open>drafts\<close> that
  \<open>loadDrafts\<close> fills from the remote table.

  The remote table is a list of rows. A query runs on the rows exactly as the hook
  writes its filters; policies that the database may add on its side are not part of
  the sources and are not modelled. Timestamps (\<open>new Date().toISOString()\<close>, compared
  by the database as points in time) are natural numbers.
\<close>

subsection \<open>Data\<close>

datatype draft_status = Draft | Completed

text \<open>A row of \<open>tournament_drafts\<close>: the fields of \<open>TournamentDraft\<close> and the column
  \<open>user_id\<close> the queries filter on. The column \<open>data\<close> holds a JSON document; the type
  \<open>'j\<close> of these documents is a parameter.\<close>

record 'j tournament_draft =
  row_id :: string
  user_id :: string
  data :: 'j
  last_updated :: nat
  status :: draft_status
  created_at :: nat

text \<open>A JavaScript error value, as far as the hook reads it: its \<open>message\<close>.\<close>

datatype js_error = JsError (message: "string option")

text \<open>
  What happens to one request to the remote store: it is served (\<open>Reaches\<close>, the result
  then depends on the table), the client returns \<open>{ error }\<close> (\<open>ErrorResult\<close>: network
  failure, timeout, server error), or the call itself raises (\<open>Throws\<close>). A request
  that is not served leaves the table as it was.
\<close>

datatype remote = Reaches | ErrorResult js_error | Throws js_error

datatype audit_action =
    tournament_draft_created
  | tournament_draft_updated
  | tournament_draft_completed
  | tournament_draft_deleted

record audit_event =
  action :: audit_action
  draft_id :: string

text \<open>
  The environment of one call of a hook operation:
  \<^item> \<open>session_user\<close>: the id of the user \<open>supabase.auth.getUser()\<close> yields, \<open>None\<close> when
    it yields no user;
  \<^item> \<open>request\<close>: the fate of the operation's own table request;
  \<^item> \<open>refresh\<close>: the fate of the select that \<open>loadDrafts\<close> issues when \<open>completeDraft\<close>
    or \<open>deleteDraft\<close> call it afterwards;
  \<^item> \<open>clock\<close>: the reading of \<open>new Date()\<close> on the caller's machine;
  \<^item> \<open>db_new_id\<close>, \<open>db_clock\<close>: the column defaults the database fills in on insert
    (the insert names neither \<open>id\<close> nor \<open>last_updated\<close> nor \<open>created_at\<close>);
  \<^item> \<open>log_ok\<close>: whether the audit logger manages to record the event it is given;
  \<^item> \<open>wire\<close>: the JSON document that the request body carries for a payload. The hook
    hands \<open>draftData\<close> (of type \<open>any\<close>, here \<open>'d\<close>) to the Supabase client as the property
    \<open>data\<close> of the update or insert body, and the client sends the body JSON-encoded.
    \<open>None\<close> stands for a payload with no JSON form (\<open>undefined\<close>, a function):
    the encoded body then has no key \<open>data\<close>. The encoding belongs to the client library
    and is not part of the sources, so it is a parameter. (A payload on which the
    encoding itself raises is a request that \<open>Throws\<close>.);
  \<^item> \<open>db_data\<close>: what the database puts into the column \<open>data\<close> of an inserted row
    when the insert body names no \<open>data\<close>.
\<close>

record ('d, 'j) env =
  session_user :: "string option"
  request :: remote
  refresh :: remote
  clock :: nat
  db_new_id :: string
  db_clock :: nat
  log_ok :: bool
  wire :: "'d \<Rightarrow> 'j option"
  db_data :: 'j

text \<open>
  The state the operations act on: the remote table, the calls made to the audit logger
  (each with whether the logger recorded it), and the hook's React state.
\<close>

record 'j hook =
  table :: "'j tournament_draft list"
  audit :: "(audit_event \<times> bool) list"
  drafts :: "'j tournament_draft list"
  isLoading :: bool
  error :: "string option"

subsection \<open>The collaborators\<close>

text \<open>
  Modelled from the spec: \<open>logAction\<close> of \<open>useAuditLog\<close>, which is not among the sources.
  The spec makes the audit logger a fire-and-forget sink: the hook calls it without
  awaiting it, the call returns to the hook whether or not the event gets recorded,
  and a failure of the logger stays inside the logger.
\<close>

definition logAction :: "('d, 'j) env \<Rightarrow> audit_event \<Rightarrow> 'j hook \<Rightarrow> 'j hook" where
  "logAction e ev st = st\<lparr>audit := audit st @ [(ev, log_ok e)]\<rparr>"

text \<open>\<open>await\<close> of a table request followed by \<open>if (error) throw error\<close>: an error result
  and a raised error both continue in the \<open>catch\<close> block.\<close>

definition await_request :: "remote \<Rightarrow> (js_error + 'a) \<Rightarrow> js_error + 'a" where
  "await_request r served =
     (case r of Reaches \<Rightarrow> served | ErrorResult err \<Rightarrow> Inl err | Throws err \<Rightarrow> Inl err)"

text \<open>\<open>.single()\<close>: exactly one row, or an error.\<close>

definition single :: "'a list \<Rightarrow> js_error + 'a" where
  "single rows =
     (case rows of
        [r] \<Rightarrow> Inr r
      | _ \<Rightarrow> Inl (JsError (Some ''JSON object requested, multiple (or no) rows returned'')))"

text \<open>\<open>.order('last_updated', { ascending: false })\<close>, as an insertion sort. The order
  of rows with equal \<open>last_updated\<close> is the database's choice; nothing below depends on it.\<close>

fun insert_desc :: "'j tournament_draft \<Rightarrow> 'j tournament_draft list \<Rightarrow> 'j tournament_draft list" where
  "insert_desc r [] = [r]"
| "insert_desc r (x # xs) =
     (if last_updated r \<le> last_updated x then x # insert_desc r xs else r # x # xs)"

definition order_desc :: "'j tournament_draft list \<Rightarrow> 'j tournament_draft list" where
  "order_desc rows = foldr insert_desc rows []"

subsection \<open>The operations of the hook\<close>

definition not_authenticated :: js_error where
  "not_authenticated = JsError (Some ''User not authenticated'')"

text \<open>The \<open>try\<close> block of \<open>loadDrafts\<close>: the rows handed to \<open>setDrafts\<close>, or the error thrown.\<close>

definition loadDrafts_try :: "('d, 'j) env \<Rightarrow> 'j hook \<Rightarrow> js_error + 'j tournament_draft list" where
  "loadDrafts_try e st =
     (case session_user e of
        None \<Rightarrow> Inl not_authenticated
      | Some u \<Rightarrow>
          await_request (request e)
            (Inr (order_desc (filter (\<lambda>r. user_id r = u) (table st)))))"

text \<open>\<open>err.message || 'Failed to load drafts'\<close>: an absent or empty message is falsy.\<close>

definition message_or :: "js_error \<Rightarrow> string \<Rightarrow> string" where
  "message_or err dflt =
     (case message err of None \<Rightarrow> dflt | Some m \<Rightarrow> if m = [] then dflt else m)"

definition loadDrafts :: "('d, 'j) env \<Rightarrow> 'j hook \<Rightarrow> 'j hook" where
  "loadDrafts e st =
     (case loadDrafts_try e st of
        Inr rows \<Rightarrow> st\<lparr>drafts := rows, isLoading := False, error := None\<rparr>
      | Inl err \<Rightarrow> st\<lparr>isLoading := False, error := Some (message_or err ''Failed to load drafts'')\<rparr>)"

text \<open>\<open>if (draftId)\<close>: the id when it is truthy. An absent id and the empty string
  both take the create branch.\<close>

fun truthy :: "string option \<Rightarrow> string option" where
  "truthy None = None"
| "truthy (Some s) = (if s = [] then None else Some s)"

text \<open>
  The column \<open>data\<close> after a request whose body was built from the property
  \<open>data: draftData\<close>, in a row whose column held (or would by default hold) \<open>old\<close>: the JSON
  form of the payload, or \<open>old\<close> when the payload has none and the body carries no such key.
\<close>

definition sent_data :: "('d, 'j) env \<Rightarrow> 'd \<Rightarrow> 'j \<Rightarrow> 'j" where
  "sent_data e draftData old = (case wire e draftData of Some j \<Rightarrow> j | None \<Rightarrow> old)"

text \<open>The update \<open>{ data: draftData, last_updated: new Date().toISOString() }\<close> on one row.\<close>

definition update_row :: "('d, 'j) env \<Rightarrow> 'd \<Rightarrow> 'j tournament_draft \<Rightarrow> 'j tournament_draft" where
  "update_row e draftData r =
     r\<lparr>data := sent_data e draftData (data r), last_updated := clock e\<rparr>"

text \<open>The row that the insert \<open>{ user_id: user.id, data: draftData, status: 'draft' }\<close>
  creates.\<close>

definition new_row :: "('d, 'j) env \<Rightarrow> string \<Rightarrow> 'd \<Rightarrow> 'j tournament_draft" where
  "new_row e u draftData =
     \<lparr>row_id = db_new_id e, user_id = u, data = sent_data e draftData (db_data e),
      last_updated = db_clock e, status = Draft, created_at = db_clock e\<rparr>"

text \<open>
  The table request of \<open>saveDraft\<close> when it is served: the row \<open>.select().single()\<close>
  returns and the table afterwards, or the error. An update whose filter does not match
  exactly one row fails in \<open>.single()\<close> and changes nothing.
\<close>

definition saveDraft_write ::
  "('d, 'j) env \<Rightarrow> string \<Rightarrow> 'd \<Rightarrow> string option \<Rightarrow> 'j tournament_draft list
     \<Rightarrow> js_error + ('j tournament_draft \<times> 'j tournament_draft list)" where
  "saveDraft_write e u draftData draftId tbl =
     (case truthy draftId of
        Some i \<Rightarrow>
          (let hit = (\<lambda>r. row_id r = i \<and> user_id r = u) in
           case single (filter hit tbl) of
             Inl err \<Rightarrow> Inl err
           | Inr r \<Rightarrow>
               Inr (update_row e draftData r,
                    map (\<lambda>x. if hit x then update_row e draftData x else x) tbl))
      | None \<Rightarrow>
          Inr (new_row e u draftData, tbl @ [new_row e u draftData]))"

definition saveDraft_try ::
  "('d, 'j) env \<Rightarrow> 'd \<Rightarrow> string option \<Rightarrow> 'j hook \<Rightarrow> js_error + (string \<times> 'j hook)" where
  "saveDraft_try e draftData draftId st =
     (case session_user e of
        None \<Rightarrow> Inl not_authenticated
      | Some u \<Rightarrow>
          (case await_request (request e) (saveDraft_write e u draftData draftId (table st)) of
             Inl err \<Rightarrow> Inl err
           | Inr (r, tbl) \<Rightarrow>
               Inr (row_id r,
                    logAction e
                      (case truthy draftId of
                         Some i \<Rightarrow> \<lparr>action = tournament_draft_updated, draft_id = i\<rparr>
                       | None \<Rightarrow> \<lparr>action = tournament_draft_created, draft_id = row_id r\<rparr>)
                      (st\<lparr>table := tbl\<rparr>))))"

definition saveDraft :: "('d, 'j) env \<Rightarrow> 'd \<Rightarrow> string option \<Rightarrow> 'j hook \<Rightarrow> string option \<times> 'j hook" where
  "saveDraft e draftData draftId st =
     (case saveDraft_try e draftData draftId st of
        Inr (i, st') \<Rightarrow> (Some i, st')
      | Inl err \<Rightarrow> (None, st))"

definition complete_row :: "('d, 'j) env \<Rightarrow> 'j tournament_draft \<Rightarrow> 'j tournament_draft" where
  "complete_row e r = r\<lparr>status := Completed, last_updated := clock e\<rparr>"

definition completeDraft_try :: "('d, 'j) env \<Rightarrow> string \<Rightarrow> 'j hook \<Rightarrow> js_error + 'j hook" where
  "completeDraft_try e draftId st =
     (case await_request (request e)
             (Inr (map (\<lambda>r. if row_id r = draftId then complete_row e r else r) (table st))) of
        Inl err \<Rightarrow> Inl err
      | Inr tbl \<Rightarrow>
          Inr (loadDrafts (e\<lparr>request := refresh e\<rparr>)
                 (logAction e \<lparr>action = tournament_draft_completed, draft_id = draftId\<rparr>
                    (st\<lparr>table := tbl\<rparr>))))"

definition completeDraft :: "('d, 'j) env \<Rightarrow> string \<Rightarrow> 'j hook \<Rightarrow> bool \<times> 'j hook" where
  "completeDraft e draftId st =
     (case completeDraft_try e draftId st of
        Inr st' \<Rightarrow> (True, st')
      | Inl err \<Rightarrow> (False, st))"

definition deleteDraft_try :: "('d, 'j) env \<Rightarrow> string \<Rightarrow> 'j hook \<Rightarrow> js_error + 'j hook" where
  "deleteDraft_try e draftId st =
     (case await_request (request e)
             (Inr (filter (\<lambda>r. row_id r \<noteq> draftId) (table st))) of
        Inl err \<Rightarrow> Inl err
      | Inr tbl \<Rightarrow>
          Inr (loadDrafts (e\<lparr>request := refresh e\<rparr>)
                 (logAction e \<lparr>action = tournament_draft_deleted, draft_id = draftId\<rparr>
                    (st\<lparr>table := tbl\<rparr>))))"

definition deleteDraft :: "('d, 'j) env \<Rightarrow> string \<Rightarrow> 'j hook \<Rightarrow> bool \<times> 'j hook" where
  "deleteDraft e draftId st =
     (case deleteDraft_try e draftId st of
        Inr st' \<Rightarrow> (True, st')
      | Inl err \<Rightarrow> (False, st))"

definition getDraft_try :: "('d, 'j) env \<Rightarrow> string \<Rightarrow> 'j hook \<Rightarrow> js_error + 'j tournament_draft" where
  "getDraft_try e draftId st =
     await_request (request e) (single (filter (\<lambda>r. row_id r = draftId) (table st)))"

definition getDraft :: "('d, 'j) env \<Rightarrow> string \<Rightarrow> 'j hook \<Rightarrow> 'j tournament_draft option" where
  "getDraft e draftId st =
     (case getDraft_try e draftId st of Inr r \<Rightarrow> Some r | Inl err \<Rightarrow> None)"

subsection \<open>Auxiliary notions and sample values\<close>

text \<open>A list of rows in the order of \<open>last_updated\<close>, newest first.\<close>

definition newest_first :: "'j tournament_draft list \<Rightarrow> bool" where
  "newest_first rows = sorted_wrt (\<lambda>a b. last_updated b \<le> last_updated a) rows"

text \<open>Two tables row by row: the same ids, and no \<open>last_updated\<close> earlier than before.\<close>

definition never_earlier :: "'j tournament_draft list \<Rightarrow> 'j tournament_draft list \<Rightarrow> bool" where
  "never_earlier old new =
     list_all2 (\<lambda>a b. row_id b = row_id a \<and> last_updated a \<le> last_updated b) old new"

text \<open>The audit events \<open>deleteDraft\<close> and \<open>completeDraft\<close> emit.\<close>

definition deleted_event :: "string \<Rightarrow> audit_event" where
  "deleted_event i = \<lparr>action = tournament_draft_deleted, draft_id = i\<rparr>"

definition completed_event :: "string \<Rightarrow> audit_event" where
  "completed_event i = \<lparr>action = tournament_draft_completed, draft_id = i\<rparr>"

text \<open>Sample values for the worked examples: an environment in which every request is
  served and whose payloads are numbers, which the body carries as they are; a network
  failure, a row and a hook state.\<close>

definition online :: "string option \<Rightarrow> nat \<Rightarrow> (nat, nat) env" where
  "online who t =
     \<lparr>session_user = who, request = Reaches, refresh = Reaches, clock = t,
      db_new_id = ''d9'', db_clock = t, log_ok = True, wire = Some, db_data = 0\<rparr>"

definition failed_to_fetch :: remote where
  "failed_to_fetch = ErrorResult (JsError (Some ''Failed to fetch''))"

definition a_row :: "string \<Rightarrow> string \<Rightarrow> nat \<Rightarrow> draft_status \<Rightarrow> nat tournament_draft" where
  "a_row i u t s =
     \<lparr>row_id = i, user_id = u, data = 0, last_updated = t, status = s, created_at = t\<rparr>"

definition a_hook :: "'j tournament_draft list \<Rightarrow> 'j tournament_draft list \<Rightarrow> 'j hook" where
  "a_hook tbl listed =
     \<lparr>table = tbl, audit = [], drafts = listed, isLoading = False, error = None\<rparr>"

text \<open>
  Sample payloads that are not all JSON values. A few JavaScript values (\<open>Number\<close> a
  finite integer, \<open>Date\<close> a valid date given by its \<open>toISOString()\<close>) and the JSON document
  that \<open>JSON.stringify\<close> puts into a body for each of them as a property value:
  \<open>undefined\<close> has none, \<open>NaN\<close> becomes \<open>null\<close>, a date becomes its ISO string.
\<close>

datatype js_value = Undefined | Null | Number int | NaN | Text string | Date string

datatype json = JNull | JNumber int | JString string

fun json_form :: "js_value \<Rightarrow> json option" where
  "json_form Undefined = None"
| "json_form Null = Some JNull"
| "json_form (Number n) = Some (JNumber n)"
| "json_form NaN = Some JNull"
| "json_form (Text s) = Some (JString s)"
| "json_form (Date s) = Some (JString s)"

definition js_online :: "string option \<Rightarrow> nat \<Rightarrow> (js_value, json) env" where
  "js_online who t =
     \<lparr>session_user = who, request = Reaches, refresh = Reaches, clock = t,
      db_new_id = ''d9'', db_clock = t, log_ok = True, wire = json_form, db_data = JNull\<rparr>"

definition js_row :: "string \<Rightarrow> string \<Rightarrow> nat \<Rightarrow> json \<Rightarrow> json tournament_draft" where
  "js_row i u t j =
     \<lparr>row_id = i, user_id = u, data = j, last_updated = t, status = Draft, created_at = t\<rparr>"

section \<open>Properties\<close>

lemmas sample_defs = online_def failed_to_fetch_def a_row_def a_hook_def js_online_def js_row_def

lemmas hook_defs =
  loadDrafts_def loadDrafts_try_def saveDraft_def saveDraft_try_def saveDraft_write_def
  completeDraft_def completeDraft_try_def deleteDraft_def deleteDraft_try_def
  getDraft_def getDraft_try_def await_request_def single_def logAction_def
  order_desc_def update_row_def new_row_def sent_data_def complete_row_def message_or_def
  not_authenticated_def

subsection \<open>Basic facts about the queries\<close>

lemma filter_id_single:
  "distinct (map row_id tbl) \<Longrightarrow> r \<in> set tbl \<Longrightarrow> filter (\<lambda>x. row_id x = row_id r) tbl = [r]"
proof (induction tbl)
  case Nil
  then show ?case by simp
next
  case (Cons x xs)
  show ?case
  proof (cases "x = r")
    case True
    with Cons.prems have "row_id r \<notin> row_id ` set xs" by simp
    then have "\<forall>y\<in>set xs. row_id y \<noteq> row_id r" by (metis imageI)
    then have "filter (\<lambda>y. row_id y = row_id r) xs = []" by (simp add: filter_empty_conv)
    with True show ?thesis by simp
  next
    case False
    with Cons.prems have "r \<in> set xs" "row_id x \<noteq> row_id r" by auto
    with Cons show ?thesis by simp
  qed
qed

lemma single_Inr: "single rows = Inr r \<longleftrightarrow> rows = [r]"
  by (auto simp: single_def split: list.splits)

lemma update_row_id [simp]: "row_id (update_row e d r) = row_id r"
  by (simp add: update_row_def)

lemma saveDraft_write_finds:
  assumes "distinct (map row_id tbl)"
      and "truthy draftId = None \<longrightarrow> db_new_id e \<notin> row_id ` set tbl"
      and "saveDraft_write e u payload draftId tbl = Inr (r, tbl')"
  shows "filter (\<lambda>x. row_id x = row_id r) tbl' = [r]
         \<and> (case truthy draftId of
              None \<Rightarrow> data r = sent_data e payload (db_data e)
            | Some i \<Rightarrow> \<exists>r0 \<in> set tbl. row_id r0 = row_id r
                                       \<and> data r = sent_data e payload (data r0))"
proof (cases "truthy draftId")
  case None
  with assms(3) have r: "r = new_row e u payload" and t: "tbl' = tbl @ [r]"
    by (auto simp: saveDraft_write_def)
  from None assms(2) r have "row_id r \<notin> row_id ` set tbl"
    by (simp add: new_row_def)
  then have "\<forall>y\<in>set tbl. row_id y \<noteq> row_id r" by (metis imageI)
  then have "filter (\<lambda>y. row_id y = row_id r) tbl = []" by (simp add: filter_empty_conv)
  with t r None show ?thesis by (simp add: new_row_def)
next
  case (Some i)
  let ?hit = "\<lambda>r. row_id r = i \<and> user_id r = u"
  from Some assms(3) obtain r0 where
    one: "filter ?hit tbl = [r0]" and r: "r = update_row e payload r0"
    and t: "tbl' = map (\<lambda>x. if ?hit x then update_row e payload x else x) tbl"
    by (auto simp: saveDraft_write_def Let_def single_Inr split: sum.splits)
  from one have "r0 \<in> set (filter ?hit tbl)" by simp
  then have mem: "r0 \<in> set tbl" and hit: "?hit r0" by auto
  have "map row_id tbl' = map row_id tbl" unfolding t map_map
    by (rule map_cong [OF refl]) simp
  with assms(1) have "distinct (map row_id tbl')" by simp
  moreover have "r \<in> set tbl'" unfolding t r using mem hit by force
  ultimately have "filter (\<lambda>x. row_id x = row_id r) tbl' = [r]"
    by (rule filter_id_single)
  moreover have "row_id r0 = row_id r \<and> data r = sent_data e payload (data r0)"
    by (simp add: r update_row_def)
  ultimately show ?thesis using Some mem by auto
qed

lemma await_request_Inr:
  "await_request q served = Inr x \<longleftrightarrow> q = Reaches \<and> served = Inr x"
  by (cases q) (simp_all add: await_request_def)


subsection \<open>Save, then load\<close>

text \<open>
  Claim C1, as the hook implements it. \<open>getDraft\<close> reads the remote table and nothing else,
  and what \<open>saveDraft\<close> stores is the JSON form of the payload. So: when \<open>saveDraft\<close>
  reports success with id \<open>i\<close>, a \<open>getDraft i\<close> right after it whose request is served
  returns the row with id \<open>i\<close>, and
  \<^item> for a payload that has a JSON form, the row carries that form (the payload itself,
    when it is a JSON value);
  \<^item> for a payload without one, the row of an update carries the data stored before, and
    the row of a create carries what the database fills in.

  A \<open>getDraft\<close> whose request is not served returns \<open>null\<close>. The ids of the table are
  distinct (\<open>id\<close> is its key) and the database gives an inserted row an id not yet in use.
\<close>

theorem saveDraft_then_getDraft:
  assumes "distinct (map row_id (table st))"
      and "truthy draftId = None \<longrightarrow> db_new_id e \<notin> row_id ` set (table st)"
      and "saveDraft e payload draftId st = (Some i, st')"
  shows "(request e' = Reaches \<longrightarrow>
           (\<exists>r. getDraft e' i st' = Some r \<and> row_id r = i
              \<and> (wire e payload \<noteq> None \<longrightarrow> wire e payload = Some (data r))
              \<and> (wire e payload = None \<and> truthy draftId \<noteq> None \<longrightarrow>
                    (\<exists>r0 \<in> set (table st). row_id r0 = i \<and> data r = data r0))
              \<and> (wire e payload = None \<and> truthy draftId = None \<longrightarrow> data r = db_data e)))
         \<and> (request e' \<noteq> Reaches \<longrightarrow> getDraft e' i st' = None)"
proof (intro conjI impI)
  assume up: "request e' = Reaches"
  from assms(3) obtain u r tbl where
    w: "saveDraft_write e u payload draftId (table st) = Inr (r, tbl)"
    and i: "i = row_id r" and t: "table st' = tbl"
    by (auto simp: saveDraft_def saveDraft_try_def logAction_def await_request_Inr
             split: sum.splits option.splits prod.splits)
  from saveDraft_write_finds [OF assms(1) assms(2) w]
  have one: "filter (\<lambda>x. row_id x = i) (table st') = [r]"
    and stored: "case truthy draftId of
              None \<Rightarrow> data r = sent_data e payload (db_data e)
            | Some k \<Rightarrow> \<exists>r0 \<in> set (table st). row_id r0 = row_id r
                                       \<and> data r = sent_data e payload (data r0)"
    by (simp_all add: i t)
  from one up have g: "getDraft e' i st' = Some r"
    by (simp add: getDraft_def getDraft_try_def await_request_def single_def)
  have a: "wire e payload \<noteq> None \<longrightarrow> wire e payload = Some (data r)"
    using stored by (auto simp: sent_data_def split: option.splits)
  note stored = stored [folded i]
  have b: "wire e payload = None \<and> truthy draftId \<noteq> None \<longrightarrow>
             (\<exists>r0 \<in> set (table st). row_id r0 = i \<and> data r = data r0)"
    using stored by (auto simp: sent_data_def split: option.splits)
  have c: "wire e payload = None \<and> truthy draftId = None \<longrightarrow> data r = db_data e"
    using stored by (auto simp: sent_data_def split: option.splits)
  from g i a b c
  show "\<exists>r. getDraft e' i st' = Some r \<and> row_id r = i
              \<and> (wire e payload \<noteq> None \<longrightarrow> wire e payload = Some (data r))
              \<and> (wire e payload = None \<and> truthy draftId \<noteq> None \<longrightarrow>
                    (\<exists>r0 \<in> set (table st). row_id r0 = i \<and> data r = data r0))
              \<and> (wire e payload = None \<and> truthy draftId = None \<longrightarrow> data r = db_data e)"
    by blast
next
  assume "request e' \<noteq> Reaches"
  then show "getDraft e' i st' = None"
    by (simp add: getDraft_def getDraft_try_def await_request_Inr split: sum.splits)
qed

theorem saveDraft_then_getDraft_witness:
  "getDraft (online (Some ''A'') 9) ''d1''
     (snd (saveDraft (online (Some ''A'') 8) 42 (Some ''d1'') (a_hook [a_row ''d1'' ''A'' 3 Draft] [])))
     = Some ((a_row ''d1'' ''A'' 8 Draft)\<lparr>data := 42, created_at := 3\<rparr>)
   \<and> getDraft ((online (Some ''A'') 9)\<lparr>request := failed_to_fetch\<rparr>) ''d1''
     (snd (saveDraft (online (Some ''A'') 8) 42 (Some ''d1'') (a_hook [a_row ''d1'' ''A'' 3 Draft] [])))
     = None
   \<and> getDraft (js_online (Some ''A'') 9) ''d1''
     (snd (saveDraft (js_online (Some ''A'') 8) Undefined (Some ''d1'')
             (a_hook [js_row ''d1'' ''A'' 3 (JNumber 7)] [])))
     = Some ((js_row ''d1'' ''A'' 8 (JNumber 7))\<lparr>created_at := 3\<rparr>)
   \<and> getDraft (js_online (Some ''A'') 9) ''d9''
     (snd (saveDraft (js_online (Some ''A'') 8) Undefined None
             (a_hook [js_row ''d1'' ''A'' 3 (JNumber 7)] [])))
     = Some (js_row ''d9'' ''A'' 8 JNull)
   \<and> getDraft (js_online (Some ''A'') 9) ''d9''
     (snd (saveDraft (js_online (Some ''A'') 8) NaN None
             (a_hook [js_row ''d1'' ''A'' 3 (JNumber 7)] [])))
     = Some (js_row ''d9'' ''A'' 8 JNull)"
  using saveDraft_then_getDraft [of "a_hook [a_row ''d1'' ''A'' 3 Draft] []" "Some ''d1''"
          "online (Some ''A'') 8" 42 "''d1''"
          "snd (saveDraft (online (Some ''A'') 8) 42 (Some ''d1'') (a_hook [a_row ''d1'' ''A'' 3 Draft] []))"
          "online (Some ''A'') 9"]
        saveDraft_then_getDraft [of "a_hook [a_row ''d1'' ''A'' 3 Draft] []" "Some ''d1''"
          "online (Some ''A'') 8" 42 "''d1''"
          "snd (saveDraft (online (Some ''A'') 8) 42 (Some ''d1'') (a_hook [a_row ''d1'' ''A'' 3 Draft] []))"
          "(online (Some ''A'') 9)\<lparr>request := failed_to_fetch\<rparr>"]
        saveDraft_then_getDraft [of "a_hook [js_row ''d1'' ''A'' 3 (JNumber 7)] []" "Some ''d1''"
          "js_online (Some ''A'') 8" Undefined "''d1''"
          "snd (saveDraft (js_online (Some ''A'') 8) Undefined (Some ''d1'')
             (a_hook [js_row ''d1'' ''A'' 3 (JNumber 7)] []))"
          "js_online (Some ''A'') 9"]
        saveDraft_then_getDraft [of "a_hook [js_row ''d1'' ''A'' 3 (JNumber 7)] []" None
          "js_online (Some ''A'') 8" Undefined "''d9''"
          "snd (saveDraft (js_online (Some ''A'') 8) Undefined None
             (a_hook [js_row ''d1'' ''A'' 3 (JNumber 7)] []))"
          "js_online (Some ''A'') 9"]
  by (simp add: sample_defs hook_defs)

text \<open>
  Claim C1 as stated fails: user \<open>A\<close> creates a draft, the save reports success with id
  \<open>d1\<close>, the remote store then stops answering, and \<open>getDraft d1\<close> returns \<open>null\<close> instead of
  the payload.
\<close>

theorem getDraft_after_saveDraft_offline_counterexample:
  "fst (saveDraft \<lparr>session_user = Some ''A'', request = Reaches, refresh = Reaches,
                   clock = 8, db_new_id = ''d1'', db_clock = 8, log_ok = True,
                   wire = Some, db_data = 0\<rparr> (42::nat) None
              \<lparr>table = [], audit = [], drafts = [], isLoading = False, error = None\<rparr>)
     = Some ''d1''
   \<and> getDraft \<lparr>session_user = Some ''A'',
                 request = ErrorResult (JsError (Some ''Failed to fetch'')), refresh = Reaches,
                 clock = 9, db_new_id = ''d2'', db_clock = 9, log_ok = True,
                 wire = Some, db_data = 0\<rparr> ''d1''
        (snd (saveDraft \<lparr>session_user = Some ''A'', request = Reaches, refresh = Reaches,
                   clock = 8, db_new_id = ''d1'', db_clock = 8, log_ok = True,
                   wire = Some, db_data = 0\<rparr> (42::nat) None
              \<lparr>table = [], audit = [], drafts = [], isLoading = False, error = None\<rparr>))
     = None"
  by (simp add: saveDraft_def saveDraft_try_def saveDraft_write_def await_request_def
        single_def logAction_def new_row_def sent_data_def getDraft_def getDraft_try_def)

subsection \<open>Listing drafts\<close>

lemma insert_desc_mset: "mset (insert_desc r rows) = add_mset r (mset rows)"
  by (induction rows) simp_all

lemma order_desc_mset: "mset (order_desc rows) = mset rows"
  unfolding order_desc_def by (induction rows) (simp_all add: insert_desc_mset)

lemma insert_desc_set: "set (insert_desc r rows) = insert r (set rows)"
  using insert_desc_mset [of r rows] by (metis set_mset_add_mset_insert set_mset_mset)

lemma insert_desc_newest_first:
  "newest_first rows \<Longrightarrow> newest_first (insert_desc r rows)"
  unfolding newest_first_def
proof (induction rows)
  case Nil
  show ?case by simp
next
  case (Cons x xs)
  show ?case
  proof (cases "last_updated r \<le> last_updated x")
    case True
    with Cons show ?thesis by (auto simp: insert_desc_set)
  next
    case False
    with Cons.prems show ?thesis by force
  qed
qed

lemma order_desc_newest_first: "newest_first (order_desc rows)"
proof (induction rows)
  case Nil
  show ?case by (simp add: order_desc_def newest_first_def)
next
  case (Cons x xs)
  then show ?case using insert_desc_newest_first [of "order_desc xs" x]
    by (simp add: order_desc_def)
qed

text \<open>
  Claim C2, as the hook implements it. When a user is signed in and the select is served,
  \<open>loadDrafts\<close> sets \<open>drafts\<close> to exactly the rows of that owner, whatever their status
  (the query filters on \<open>user_id\<close> only), ordered by \<open>last_updated\<close>, newest first.
\<close>

theorem loadDrafts_lists_owner_rows:
  assumes "session_user e = Some u" and "request e = Reaches"
  shows "mset (drafts (loadDrafts e st)) = filter_mset (\<lambda>r. user_id r = u) (mset (table st))
         \<and> newest_first (drafts (loadDrafts e st))"
  using assms
  by (simp add: loadDrafts_def loadDrafts_try_def await_request_def order_desc_mset
        order_desc_newest_first)

theorem loadDrafts_lists_owner_rows_witness:
  "mset (drafts (loadDrafts (online (Some ''A'') 9)
           (a_hook [a_row ''d1'' ''A'' 3 Completed, a_row ''d2'' ''B'' 4 Draft,
                    a_row ''d3'' ''A'' 5 Draft] [])))
     = {#a_row ''d1'' ''A'' 3 Completed, a_row ''d3'' ''A'' 5 Draft#}
   \<and> newest_first (drafts (loadDrafts (online (Some ''A'') 9)
           (a_hook [a_row ''d1'' ''A'' 3 Completed, a_row ''d2'' ''B'' 4 Draft,
                    a_row ''d3'' ''A'' 5 Draft] [])))"
  using loadDrafts_lists_owner_rows [of "online (Some ''A'') 9" "''A''"
      "a_hook [a_row ''d1'' ''A'' 3 Completed, a_row ''d2'' ''B'' 4 Draft,
               a_row ''d3'' ''A'' 5 Draft] []"]
  by (simp add: sample_defs)

text \<open>
  Claim C2 as stated fails: owner \<open>A\<close> has a completed draft \<open>d1\<close> and an open draft \<open>d3\<close>;
  \<open>loadDrafts\<close> lists both, the completed one included.
\<close>

theorem loadDrafts_completed_listed_counterexample:
  "drafts (loadDrafts (online (Some ''A'') 9)
     (a_hook [a_row ''d1'' ''A'' 3 Completed, a_row ''d3'' ''A'' 5 Draft] []))
   = [a_row ''d3'' ''A'' 5 Draft, a_row ''d1'' ''A'' 3 Completed]"
  by (simp add: sample_defs hook_defs)

subsection \<open>Owner identity\<close>

text \<open>The update branch of \<open>saveDraft\<close> is scoped to the signed-in user: on a draft
  that is not theirs it returns \<open>null\<close> and changes nothing.\<close>

lemma saveDraft_update_foreign:
  assumes "session_user e = Some u" and "i \<noteq> []"
      and "\<forall>r \<in> set (table st). row_id r = i \<longrightarrow> user_id r \<noteq> u"
  shows "saveDraft e d (Some i) st = (None, st)"
proof -
  from assms(3) have "filter (\<lambda>r. row_id r = i \<and> user_id r = u) (table st) = []"
    by (simp add: filter_empty_conv)
  then have "\<exists>err. saveDraft_write e u d (Some i) (table st) = Inl err"
    using assms(2) by (simp add: saveDraft_write_def single_def)
  then obtain err where "saveDraft_write e u d (Some i) (table st) = Inl err" ..
  then have "\<exists>err'. await_request (request e) (saveDraft_write e u d (Some i) (table st)) = Inl err'"
    by (cases "request e") (simp_all add: await_request_def)
  with assms(1) show ?thesis
    by (auto simp: saveDraft_def saveDraft_try_def)
qed

text \<open>
  Claim C3 at a failing input. The table holds the draft \<open>d2\<close> of owner \<open>B\<close> and the signed-in
  user is \<open>A\<close>. \<open>getDraft\<close> returns \<open>B\<close>'s draft, \<open>completeDraft\<close> reports success and marks it
  completed, \<open>deleteDraft\<close> reports success and removes it: none of the three filters on
  \<open>user_id\<close>, which the update branch of \<open>saveDraft\<close> and \<open>loadDrafts\<close> do.
\<close>

theorem foreign_draft_not_rejected:
  "getDraft (online (Some ''A'') 9) ''d2'' (a_hook [a_row ''d2'' ''B'' 4 Draft] [])
     = Some (a_row ''d2'' ''B'' 4 Draft)
   \<and> fst (completeDraft (online (Some ''A'') 9) ''d2'' (a_hook [a_row ''d2'' ''B'' 4 Draft] []))
   \<and> table (snd (completeDraft (online (Some ''A'') 9) ''d2''
                    (a_hook [a_row ''d2'' ''B'' 4 Draft] [])))
     = [a_row ''d2'' ''B'' 9 Completed\<lparr>created_at := 4\<rparr>]
   \<and> fst (deleteDraft (online (Some ''A'') 9) ''d2'' (a_hook [a_row ''d2'' ''B'' 4 Draft] []))
   \<and> table (snd (deleteDraft (online (Some ''A'') 9) ''d2''
                    (a_hook [a_row ''d2'' ''B'' 4 Draft] []))) = []"
  by (simp add: sample_defs hook_defs)

text \<open>Without a signed-in user \<open>saveDraft\<close> and \<open>loadDrafts\<close> stop before their table
  request.\<close>

lemma saveDraft_no_user:
  "session_user e = None \<Longrightarrow> saveDraft e draftData draftId st = (None, st)"
  by (simp add: saveDraft_def saveDraft_try_def)

lemma loadDrafts_no_user:
  "session_user e = None \<Longrightarrow>
     loadDrafts e st = st\<lparr>isLoading := False, error := Some ''User not authenticated''\<rparr>"
  by (simp add: loadDrafts_def loadDrafts_try_def not_authenticated_def message_or_def)

text \<open>
  Claim C6 at a failing input. No user is signed in and the table holds the draft \<open>d1\<close>.
  \<open>getDraft\<close>, \<open>completeDraft\<close> and \<open>deleteDraft\<close> never ask for the user: the read returns
  the draft, the other two report success and change the table.
\<close>

theorem unauthenticated_operations_proceed:
  "getDraft (online None 9) ''d1'' (a_hook [a_row ''d1'' ''A'' 4 Draft] [])
     = Some (a_row ''d1'' ''A'' 4 Draft)
   \<and> fst (completeDraft (online None 9) ''d1'' (a_hook [a_row ''d1'' ''A'' 4 Draft] []))
   \<and> table (snd (completeDraft (online None 9) ''d1''
                    (a_hook [a_row ''d1'' ''A'' 4 Draft] [])))
     = [a_row ''d1'' ''A'' 9 Completed\<lparr>created_at := 4\<rparr>]
   \<and> fst (deleteDraft (online None 9) ''d1'' (a_hook [a_row ''d1'' ''A'' 4 Draft] []))
   \<and> table (snd (deleteDraft (online None 9) ''d1''
                    (a_hook [a_row ''d1'' ''A'' 4 Draft] []))) = []"
  by (simp add: sample_defs hook_defs)

subsection \<open>How the operations unfold\<close>

lemma loadDrafts_table [simp]: "table (loadDrafts e st) = table st"
  by (simp add: loadDrafts_def split: sum.splits)

lemma loadDrafts_audit [simp]: "audit (loadDrafts e st) = audit st"
  by (simp add: loadDrafts_def split: sum.splits)

lemma loadDrafts_served:
  "session_user e = Some u \<Longrightarrow> request e = Reaches \<Longrightarrow>
     drafts (loadDrafts e st) = order_desc (filter (\<lambda>r. user_id r = u) (table st))"
  by (simp add: loadDrafts_def loadDrafts_try_def await_request_def)

lemma order_desc_set: "set (order_desc rows) = set rows"
  using order_desc_mset [of rows] by (metis set_mset_mset)

lemma deleteDraft_served:
  "request e = Reaches \<Longrightarrow>
     deleteDraft e i st =
       (True, loadDrafts (e\<lparr>request := refresh e\<rparr>)
                (logAction e \<lparr>action = tournament_draft_deleted, draft_id = i\<rparr>
                   (st\<lparr>table := filter (\<lambda>r. row_id r \<noteq> i) (table st)\<rparr>)))"
  by (simp add: deleteDraft_def deleteDraft_try_def await_request_def)

lemma deleteDraft_unserved: "request e \<noteq> Reaches \<Longrightarrow> deleteDraft e i st = (False, st)"
  by (cases "request e") (simp_all add: deleteDraft_def deleteDraft_try_def await_request_def)

lemma completeDraft_served:
  "request e = Reaches \<Longrightarrow>
     completeDraft e i st =
       (True, loadDrafts (e\<lparr>request := refresh e\<rparr>)
                (logAction e \<lparr>action = tournament_draft_completed, draft_id = i\<rparr>
                   (st\<lparr>table := map (\<lambda>r. if row_id r = i then complete_row e r else r) (table st)\<rparr>)))"
  by (simp add: completeDraft_def completeDraft_try_def await_request_def)

lemma completeDraft_unserved: "request e \<noteq> Reaches \<Longrightarrow> completeDraft e i st = (False, st)"
  by (cases "request e") (simp_all add: completeDraft_def completeDraft_try_def await_request_def)

subsection \<open>Deleting a draft\<close>

text \<open>
  Claim C4, as the hook implements it. \<open>deleteDraft\<close> starts with the remote delete and has
  no local removal of its own. When the delete is served and the reload that follows
  succeeds (a user is signed in, the select is served), \<open>deleteDraft\<close> returns \<open>true\<close> and the
  id is absent from the table and from \<open>drafts\<close>. When the remote delete is not served,
  \<open>deleteDraft\<close> returns \<open>false\<close> and nothing changes: a draft that was listed stays listed.
\<close>

theorem deleteDraft_follows_remote:
  "(request e = Reaches \<and> refresh e = Reaches \<and> session_user e = Some u \<longrightarrow>
      fst (deleteDraft e i st)
      \<and> i \<notin> row_id ` set (table (snd (deleteDraft e i st)))
      \<and> i \<notin> row_id ` set (drafts (snd (deleteDraft e i st))))
   \<and> (request e \<noteq> Reaches \<longrightarrow> deleteDraft e i st = (False, st))"
proof (intro conjI impI)
  assume a: "request e = Reaches \<and> refresh e = Reaches \<and> session_user e = Some u"
  let ?st = "logAction e \<lparr>action = tournament_draft_deleted, draft_id = i\<rparr>
               (st\<lparr>table := filter (\<lambda>r. row_id r \<noteq> i) (table st)\<rparr>)"
  let ?e = "e\<lparr>request := refresh e\<rparr>"
  from a have d: "deleteDraft e i st = (True, loadDrafts ?e ?st)"
    by (simp add: deleteDraft_served)
  from a have l: "drafts (loadDrafts ?e ?st)
      = order_desc (filter (\<lambda>r. user_id r = u) (table ?st))"
    by (intro loadDrafts_served) simp_all
  have t: "table ?st = filter (\<lambda>r. row_id r \<noteq> i) (table st)"
    by (simp add: logAction_def)
  show "fst (deleteDraft e i st)" by (simp add: d)
  show "i \<notin> row_id ` set (table (snd (deleteDraft e i st)))"
    by (auto simp: d t)
  show "i \<notin> row_id ` set (drafts (snd (deleteDraft e i st)))"
    by (auto simp: d l t order_desc_set)
next
  assume "request e \<noteq> Reaches"
  then show "deleteDraft e i st = (False, st)" by (rule deleteDraft_unserved)
qed

theorem deleteDraft_follows_remote_witness:
  "fst (deleteDraft (online (Some ''A'') 9) ''d1''
          (a_hook [a_row ''d1'' ''A'' 4 Draft] [a_row ''d1'' ''A'' 4 Draft]))
   \<and> ''d1'' \<notin> row_id ` set (table (snd (deleteDraft (online (Some ''A'') 9) ''d1''
          (a_hook [a_row ''d1'' ''A'' 4 Draft] [a_row ''d1'' ''A'' 4 Draft]))))
   \<and> ''d1'' \<notin> row_id ` set (drafts (snd (deleteDraft (online (Some ''A'') 9) ''d1''
          (a_hook [a_row ''d1'' ''A'' 4 Draft] [a_row ''d1'' ''A'' 4 Draft]))))
   \<and> deleteDraft ((online (Some ''A'') 9)\<lparr>request := failed_to_fetch\<rparr>) ''d1''
          (a_hook [a_row ''d1'' ''A'' 4 Draft] [a_row ''d1'' ''A'' 4 Draft])
       = (False, a_hook [a_row ''d1'' ''A'' 4 Draft] [a_row ''d1'' ''A'' 4 Draft])"
  using deleteDraft_follows_remote [of "online (Some ''A'') 9" "''A''" "''d1''"
          "a_hook [a_row ''d1'' ''A'' 4 Draft] [a_row ''d1'' ''A'' 4 Draft]"]
        deleteDraft_follows_remote [of "(online (Some ''A'') 9)\<lparr>request := failed_to_fetch\<rparr>"
          "''A''" "''d1''"
          "a_hook [a_row ''d1'' ''A'' 4 Draft] [a_row ''d1'' ''A'' 4 Draft]"]
  by (simp add: online_def failed_to_fetch_def)

text \<open>
  Claim C4 as stated fails: \<open>d1\<close> is in the table and in \<open>drafts\<close>, the remote delete
  fails, and afterwards \<open>drafts\<close> still shows \<open>d1\<close>.
\<close>

theorem deleteDraft_offline_counterexample:
  "deleteDraft ((online (Some ''A'') 9)\<lparr>request := failed_to_fetch\<rparr>) ''d1''
     (a_hook [a_row ''d1'' ''A'' 4 Draft] [a_row ''d1'' ''A'' 4 Draft])
   = (False, a_hook [a_row ''d1'' ''A'' 4 Draft] [a_row ''d1'' ''A'' 4 Draft])
   \<and> drafts (snd (deleteDraft ((online (Some ''A'') 9)\<lparr>request := failed_to_fetch\<rparr>) ''d1''
       (a_hook [a_row ''d1'' ''A'' 4 Draft] [a_row ''d1'' ''A'' 4 Draft])))
     = [a_row ''d1'' ''A'' 4 Draft]"
  by (simp add: sample_defs hook_defs)

subsection \<open>Completing a draft\<close>

lemma complete_row_id [simp]: "row_id (complete_row e r) = row_id r"
  by (simp add: complete_row_def)

lemma complete_row_user [simp]: "user_id (complete_row e r) = user_id r"
  by (simp add: complete_row_def)

lemma complete_row_status [simp]: "status (complete_row e r) = Completed"
  by (simp add: complete_row_def)

lemma complete_row_twice [simp]: "complete_row e2 (complete_row e1 r) = complete_row e2 r"
  by (simp add: complete_row_def)

lemma complete_rows_twice:
  "map (\<lambda>r. if row_id r = i then complete_row e2 r else r)
     (map (\<lambda>r. if row_id r = i then complete_row e1 r else r) tbl)
   = map (\<lambda>r. if row_id r = i then complete_row e2 r else r) tbl"
  by (induction tbl) simp_all

lemma logAction_table [simp]: "table (logAction e ev st) = table st"
  by (simp add: logAction_def)

lemma loadDrafts_try_cong:
  "table st' = table st \<Longrightarrow> loadDrafts_try e st' = loadDrafts_try e st"
  by (simp add: loadDrafts_try_def split: option.splits)

lemma loadDrafts_again:
  "loadDrafts e ((loadDrafts e st)\<lparr>audit := a\<rparr>) = (loadDrafts e st)\<lparr>audit := a\<rparr>"
proof -
  have "loadDrafts_try e ((loadDrafts e st)\<lparr>audit := a\<rparr>) = loadDrafts_try e st"
    by (rule loadDrafts_try_cong) simp
  then show ?thesis
    by (cases "loadDrafts_try e st") (simp_all add: loadDrafts_def)
qed

lemma loadDrafts_env:
  "session_user e' = session_user e \<Longrightarrow> request e' = request e \<Longrightarrow>
     loadDrafts e' st = loadDrafts e st"
  by (simp add: loadDrafts_def loadDrafts_try_def split: option.splits)

lemma clock_log_ok [simp]: "complete_row (e\<lparr>log_ok := b\<rparr>) r = complete_row e r"
  by (simp add: complete_row_def)

lemma complete_rows_status:
  assumes "r \<in> set (map (\<lambda>x. if row_id x = i then complete_row e x else x) tbl)"
      and "row_id r = i"
  shows "status r = Completed"
proof -
  from assms(1) have "r \<in> (\<lambda>x. if row_id x = i then complete_row e x else x) ` set tbl"
    by simp
  then obtain x where x: "r = (if row_id x = i then complete_row e x else x)"
    by (rule imageE)
  show ?thesis
  proof (cases "row_id x = i")
    case True
    with x show ?thesis by simp
  next
    case False
    with x assms(2) show ?thesis by simp
  qed
qed

text \<open>
  Claim C5, as the hook implements it. A served \<open>completeDraft i\<close> returns \<open>true\<close> and leaves
  every row with id \<open>i\<close> completed, but it does not take the draft out of the list: after a
  successful reload the completed row of the owner is in \<open>drafts\<close>. A second call in the
  same environment (whether or not the logger records the event) returns \<open>true\<close> again and
  leaves the state of the first call, except that the audit trail holds the same event
  a second time. With a later clock reading the second call writes that reading into
  \<open>last_updated\<close>: the table is the one a single call at the later reading gives.
\<close>

theorem completeDraft_repeated:
  assumes "request e = Reaches"
  shows "fst (completeDraft e i st)
    \<and> (\<forall>r \<in> set (table (snd (completeDraft e i st))). row_id r = i \<longrightarrow> status r = Completed)
    \<and> (session_user e = Some u \<and> refresh e = Reaches \<longrightarrow>
         (\<forall>r \<in> set (table st). row_id r = i \<and> user_id r = u \<longrightarrow>
            complete_row e r \<in> set (drafts (snd (completeDraft e i st)))))
    \<and> completeDraft (e\<lparr>log_ok := b\<rparr>) i (snd (completeDraft e i st))
        = (True, (snd (completeDraft e i st))
                   \<lparr>audit := audit st @ [(completed_event i, log_ok e), (completed_event i, b)]\<rparr>)
    \<and> (request e2 = Reaches \<longrightarrow>
         table (snd (completeDraft e2 i (snd (completeDraft e i st))))
           = table (snd (completeDraft e2 i st)))"
proof -
  let ?e = "e\<lparr>request := refresh e\<rparr>"
  let ?c = "\<lambda>r. if row_id r = i then complete_row e r else r"
  let ?st0 = "logAction e \<lparr>action = tournament_draft_completed, draft_id = i\<rparr>
                (st\<lparr>table := map ?c (table st)\<rparr>)"
  let ?st1 = "loadDrafts ?e ?st0"
  have first: "completeDraft e i st = (True, ?st1)"
    using assms by (rule completeDraft_served)
  have tbl: "table ?st1 = map ?c (table st)"
    by (simp add: logAction_def)
  have aud: "audit ?st1 = audit st @ [(completed_event i, log_ok e)]"
    by (simp add: logAction_def completed_event_def)
  have p1: "fst (completeDraft e i st)" by (simp add: first)
  have p2: "\<forall>r \<in> set (table (snd (completeDraft e i st))). row_id r = i \<longrightarrow> status r = Completed"
  proof (intro ballI impI)
    fix r
    assume m: "r \<in> set (table (snd (completeDraft e i st)))" and i: "row_id r = i"
    from m have "r \<in> set (map ?c (table st))" by (simp add: first)
    then show "status r = Completed" using i by (rule complete_rows_status)
  qed
  have p3: "session_user e = Some u \<and> refresh e = Reaches \<longrightarrow>
         (\<forall>r \<in> set (table st). row_id r = i \<and> user_id r = u \<longrightarrow>
            complete_row e r \<in> set (drafts (snd (completeDraft e i st))))"
  proof (intro impI ballI)
    fix r
    assume a: "session_user e = Some u \<and> refresh e = Reaches"
       and r: "r \<in> set (table st)" and h: "row_id r = i \<and> user_id r = u"
    from a have "drafts ?st1 = order_desc (filter (\<lambda>r. user_id r = u) (table ?st0))"
      by (intro loadDrafts_served) simp_all
    moreover have "table ?st0 = map ?c (table st)" by simp
    moreover from r have "?c r \<in> ?c ` set (table st)" by (rule imageI)
    then have "?c r \<in> set (map ?c (table st))" by (simp only: set_map)
    with h have "complete_row e r \<in> set (map ?c (table st))" by simp
    ultimately have "complete_row e r \<in> set (drafts ?st1)"
      using h by (simp add: order_desc_set)
    then show "complete_row e r \<in> set (drafts (snd (completeDraft e i st)))"
      by (simp add: first)
  qed
  have p4: "completeDraft (e\<lparr>log_ok := b\<rparr>) i (snd (completeDraft e i st))
        = (True, (snd (completeDraft e i st))
                   \<lparr>audit := audit st @ [(completed_event i, log_ok e), (completed_event i, b)]\<rparr>)"
  proof -
    let ?b = "e\<lparr>log_ok := b\<rparr>"
    let ?a = "audit st @ [(completed_event i, log_ok e), (completed_event i, b)]"
    have c: "(\<lambda>r. if row_id r = i then complete_row ?b r else r) = ?c"
      by (rule ext) simp
    have "map ?c (table ?st1) = table ?st1"
      by (simp add: complete_rows_twice)
    then have same: "?st1\<lparr>table := map ?c (table ?st1)\<rparr> = ?st1" by simp
    have lg: "logAction ?b \<lparr>action = tournament_draft_completed, draft_id = i\<rparr> ?st1
                = ?st1\<lparr>audit := ?a\<rparr>"
      unfolding logAction_def aud by (simp add: completed_event_def)
    have "request ?b = Reaches" using assms by simp
    then have "completeDraft ?b i ?st1
        = (True, loadDrafts (?b\<lparr>request := refresh ?b\<rparr>)
                   (logAction ?b \<lparr>action = tournament_draft_completed, draft_id = i\<rparr>
                      (?st1\<lparr>table := map (\<lambda>r. if row_id r = i then complete_row ?b r else r)
                                          (table ?st1)\<rparr>)))"
      by (rule completeDraft_served)
    also have "\<dots> = (True, loadDrafts (?b\<lparr>request := refresh ?b\<rparr>) (?st1\<lparr>audit := ?a\<rparr>))"
      by (simp only: c same lg)
    also have "loadDrafts (?b\<lparr>request := refresh ?b\<rparr>) (?st1\<lparr>audit := ?a\<rparr>)
                 = loadDrafts ?e (?st1\<lparr>audit := ?a\<rparr>)"
      by (rule loadDrafts_env) simp_all
    also have "loadDrafts ?e (?st1\<lparr>audit := ?a\<rparr>) = ?st1\<lparr>audit := ?a\<rparr>"
      by (rule loadDrafts_again)
    finally show ?thesis by (simp only: first snd_conv)
  qed
  have p5: "request e2 = Reaches \<longrightarrow>
         table (snd (completeDraft e2 i (snd (completeDraft e i st))))
           = table (snd (completeDraft e2 i st))"
    by (simp add: first completeDraft_served logAction_def complete_rows_twice)
  from p1 p2 p3 p4 p5 show ?thesis by blast
qed

theorem completeDraft_repeated_witness:
  "fst (completeDraft (online (Some ''A'') 9) ''d1''
          (a_hook [a_row ''d1'' ''A'' 4 Draft] [a_row ''d1'' ''A'' 4 Draft]))
   \<and> a_row ''d1'' ''A'' 9 Completed\<lparr>created_at := 4\<rparr>
       \<in> set (drafts (snd (completeDraft (online (Some ''A'') 9) ''d1''
          (a_hook [a_row ''d1'' ''A'' 4 Draft] [a_row ''d1'' ''A'' 4 Draft]))))
   \<and> fst (completeDraft ((online (Some ''A'') 9)\<lparr>log_ok := False\<rparr>) ''d1''
        (snd (completeDraft (online (Some ''A'') 9) ''d1''
          (a_hook [a_row ''d1'' ''A'' 4 Draft] [a_row ''d1'' ''A'' 4 Draft]))))
   \<and> table (snd (completeDraft (online (Some ''A'') 12) ''d1''
        (snd (completeDraft (online (Some ''A'') 9) ''d1''
          (a_hook [a_row ''d1'' ''A'' 4 Draft] [a_row ''d1'' ''A'' 4 Draft])))))
     = [a_row ''d1'' ''A'' 12 Completed\<lparr>created_at := 4\<rparr>]"
  using completeDraft_repeated [of "online (Some ''A'') 9" "''d1''"
          "a_hook [a_row ''d1'' ''A'' 4 Draft] [a_row ''d1'' ''A'' 4 Draft]" "''A''" False
          "online (Some ''A'') 12"]
  by (simp add: sample_defs hook_defs)

text \<open>
  Claim C5 as stated fails: \<open>d1\<close> is completed by its owner with every request served, and
  the list \<open>drafts\<close> afterwards still holds \<open>d1\<close>, now with status completed.
\<close>

theorem completeDraft_still_listed_counterexample:
  "drafts (snd (completeDraft (online (Some ''A'') 9) ''d1''
      (a_hook [a_row ''d1'' ''A'' 4 Draft] [a_row ''d1'' ''A'' 4 Draft])))
   = [a_row ''d1'' ''A'' 9 Completed\<lparr>created_at := 4\<rparr>]"
  by (simp add: sample_defs hook_defs)

subsection \<open>Failures of the remote store\<close>

lemma await_request_unserved:
  "q \<noteq> Reaches \<Longrightarrow> await_request q served = Inl (case q of ErrorResult err \<Rightarrow> err | Throws err \<Rightarrow> err)"
  by (cases q) (simp_all add: await_request_def)

lemma saveDraft_unserved: "request e \<noteq> Reaches \<Longrightarrow> saveDraft e d draftId st = (None, st)"
  by (cases "session_user e")
     (simp_all add: saveDraft_def saveDraft_try_def await_request_unserved)

lemma getDraft_unserved: "request e \<noteq> Reaches \<Longrightarrow> getDraft e i st = None"
  by (simp add: getDraft_def getDraft_try_def await_request_unserved)

lemma message_or_nonempty: "dflt \<noteq> [] \<Longrightarrow> message_or err dflt \<noteq> []"
  by (simp add: message_or_def split: option.splits)

lemma loadDrafts_unserved:
  assumes "request e \<noteq> Reaches"
  shows "\<exists>err. loadDrafts e st
           = st\<lparr>isLoading := False, error := Some (message_or err ''Failed to load drafts'')\<rparr>"
proof (cases "session_user e")
  case None
  then show ?thesis by (auto simp: loadDrafts_def loadDrafts_try_def)
next
  case (Some u)
  with assms show ?thesis
    by (auto simp: loadDrafts_def loadDrafts_try_def await_request_unserved)
qed

text \<open>
  Claim C9. Every operation ends in a value: the \<open>catch\<close> blocks turn the error of the
  \<open>try\<close> block into \<open>null\<close> or \<open>false\<close>, so the operations have no error result at all. When
  the operation's request is not served (an error result or a raised error, with any
  message or none), \<open>saveDraft\<close> and \<open>getDraft\<close> return \<open>null\<close>, \<open>completeDraft\<close> and
  \<open>deleteDraft\<close> return \<open>false\<close>, all four leave the state as it was, and \<open>loadDrafts\<close>
  records a non-empty message in \<open>error\<close> and leaves \<open>drafts\<close> and the table unchanged.
\<close>

theorem remote_failures_become_values:
  assumes "request e \<noteq> Reaches"
  shows "saveDraft e d draftId st = (None, st)
    \<and> getDraft e i st = None
    \<and> completeDraft e i st = (False, st)
    \<and> deleteDraft e i st = (False, st)
    \<and> (\<exists>m. error (loadDrafts e st) = Some m \<and> m \<noteq> [])
    \<and> drafts (loadDrafts e st) = drafts st
    \<and> table (loadDrafts e st) = table st"
proof -
  from loadDrafts_unserved [OF assms, of st] obtain err where
    l: "loadDrafts e st
          = st\<lparr>isLoading := False, error := Some (message_or err ''Failed to load drafts'')\<rparr>" ..
  have "message_or err ''Failed to load drafts'' \<noteq> []"
    by (rule message_or_nonempty) simp
  with l have "\<exists>m. error (loadDrafts e st) = Some m \<and> m \<noteq> []" by simp
  moreover from l have "drafts (loadDrafts e st) = drafts st" by simp
  ultimately show ?thesis
    using assms
    by (simp add: saveDraft_unserved getDraft_unserved completeDraft_unserved
          deleteDraft_unserved)
qed

theorem remote_failures_become_values_witness:
  "saveDraft ((online (Some ''A'') 9)\<lparr>request := Throws (JsError None)\<rparr>) 5 (Some ''d1'')
       (a_hook [a_row ''d1'' ''A'' 4 Draft] [a_row ''d1'' ''A'' 4 Draft])
     = (None, a_hook [a_row ''d1'' ''A'' 4 Draft] [a_row ''d1'' ''A'' 4 Draft])
   \<and> getDraft ((online (Some ''A'') 9)\<lparr>request := Throws (JsError None)\<rparr>) ''d1''
       (a_hook [a_row ''d1'' ''A'' 4 Draft] [a_row ''d1'' ''A'' 4 Draft]) = None
   \<and> error (loadDrafts ((online (Some ''A'') 9)\<lparr>request := Throws (JsError None)\<rparr>)
       (a_hook [a_row ''d1'' ''A'' 4 Draft] [a_row ''d1'' ''A'' 4 Draft]))
     = Some ''Failed to load drafts''
   \<and> drafts (loadDrafts ((online (Some ''A'') 9)\<lparr>request := Throws (JsError None)\<rparr>)
       (a_hook [a_row ''d1'' ''A'' 4 Draft] [a_row ''d1'' ''A'' 4 Draft]))
     = [a_row ''d1'' ''A'' 4 Draft]"
  using remote_failures_become_values
          [of "(online (Some ''A'') 9)\<lparr>request := Throws (JsError None)\<rparr>" 5 "Some ''d1''"
              "a_hook [a_row ''d1'' ''A'' 4 Draft] [a_row ''d1'' ''A'' 4 Draft]" "''d1''"]
  by (simp add: sample_defs hook_defs)

subsection \<open>Deleting an id that has no draft\<close>

text \<open>
  Claim C10. When no row has the id \<open>i\<close>, a served \<open>deleteDraft i\<close> returns \<open>true\<close>, emits
  the event \<open>tournament_draft_deleted\<close> for \<open>i\<close> and leaves the table as it is; and in every
  environment its result and its audit trail are those of deleting a draft that does
  exist under that id.
\<close>

theorem deleteDraft_of_absent_id:
  assumes "i \<notin> row_id ` set (table st)"
  shows "(request e = Reaches \<longrightarrow>
            fst (deleteDraft e i st)
          \<and> audit (snd (deleteDraft e i st)) = audit st @ [(deleted_event i, log_ok e)]
          \<and> table (snd (deleteDraft e i st)) = table st)
       \<and> fst (deleteDraft e i (st\<lparr>table := table st @ [r\<lparr>row_id := i\<rparr>]\<rparr>))
           = fst (deleteDraft e i st)
       \<and> audit (snd (deleteDraft e i (st\<lparr>table := table st @ [r\<lparr>row_id := i\<rparr>]\<rparr>)))
           = audit (snd (deleteDraft e i st))"
proof (cases "request e = Reaches")
  case True
  from assms have "\<forall>x\<in>set (table st). row_id x \<noteq> i" by (metis imageI)
  then have "filter (\<lambda>x. row_id x \<noteq> i) (table st) = table st" by simp
  with True show ?thesis
    by (simp add: deleteDraft_served logAction_def deleted_event_def)
next
  case False
  then show ?thesis by (simp add: deleteDraft_unserved)
qed

theorem deleteDraft_of_absent_id_witness:
  "fst (deleteDraft (online (Some ''A'') 9) ''zz'' (a_hook [a_row ''d1'' ''A'' 4 Draft] []))
   \<and> audit (snd (deleteDraft (online (Some ''A'') 9) ''zz''
        (a_hook [a_row ''d1'' ''A'' 4 Draft] []))) = [(deleted_event ''zz'', True)]
   \<and> table (snd (deleteDraft (online (Some ''A'') 9) ''zz''
        (a_hook [a_row ''d1'' ''A'' 4 Draft] []))) = [a_row ''d1'' ''A'' 4 Draft]"
  using deleteDraft_of_absent_id [of "''zz''" "a_hook [a_row ''d1'' ''A'' 4 Draft] []"
          "online (Some ''A'') 9"]
  by (simp add: sample_defs)

subsection \<open>The timestamp \<open>last_updated\<close>\<close>

lemma saveDraft_update_served:
  assumes "session_user e = Some u" and "truthy draftId = Some i"
      and "fst (saveDraft e d draftId st) \<noteq> None"
  shows "table (snd (saveDraft e d draftId st))
           = map (\<lambda>x. if row_id x = i \<and> user_id x = u then update_row e d x else x) (table st)
         \<and> fst (saveDraft e d draftId st) = Some i"
proof -
  let ?hit = "\<lambda>r. row_id r = i \<and> user_id r = u"
  from assms obtain r where "filter ?hit (table st) = [r]" and "request e = Reaches"
    by (auto simp: saveDraft_def saveDraft_try_def saveDraft_write_def single_Inr
          await_request_Inr Let_def split: sum.splits)
  moreover from this have "r \<in> set (filter ?hit (table st))" by simp
  then have "row_id r = i" by simp
  ultimately show ?thesis using assms(1,2)
    by (simp add: saveDraft_def saveDraft_try_def saveDraft_write_def single_def
          await_request_def logAction_def)
qed

lemma saveDraft_create_served:
  assumes "session_user e = Some u" and "truthy draftId = None" and "request e = Reaches"
  shows "saveDraft e d draftId st
           = (Some (db_new_id e),
              logAction e \<lparr>action = tournament_draft_created, draft_id = db_new_id e\<rparr>
                (st\<lparr>table := table st @ [new_row e u d]\<rparr>))"
  using assms
  by (simp add: saveDraft_def saveDraft_try_def saveDraft_write_def await_request_def new_row_def)

lemma never_earlier_map:
  assumes "\<And>x. x \<in> set tbl \<Longrightarrow> row_id (f x) = row_id x \<and> last_updated x \<le> last_updated (f x)"
  shows "never_earlier tbl (map f tbl)"
  unfolding never_earlier_def using assms
  by (induction tbl) simp_all

text \<open>
  Claim C7, as the hook implements it. A successful content update writes the caller's
  clock reading into \<open>last_updated\<close> of the row it addresses, a served \<open>completeDraft\<close>
  writes it into every row with the id, and a create leaves \<open>last_updated\<close> to the
  database default. The hook never compares with the stored value: \<open>last_updated\<close> does
  not decrease when the clock reading is not earlier than the stored timestamps.
\<close>

theorem last_updated_follows_clock:
  "(session_user e = Some u \<and> truthy draftId = Some i \<and> fst (saveDraft e d draftId st) \<noteq> None \<longrightarrow>
      map last_updated (table (snd (saveDraft e d draftId st)))
        = map (\<lambda>r. if row_id r = i \<and> user_id r = u then clock e else last_updated r) (table st))
   \<and> (request e = Reaches \<longrightarrow>
      map last_updated (table (snd (completeDraft e j st)))
        = map (\<lambda>r. if row_id r = j then clock e else last_updated r) (table st))
   \<and> (session_user e = Some u \<and> truthy draftId = None \<and> request e = Reaches \<longrightarrow>
      table (snd (saveDraft e d draftId st)) = table st @ [new_row e u d]
      \<and> last_updated (new_row e u d) = db_clock e)
   \<and> ((\<forall>r \<in> set (table st). last_updated r \<le> clock e) \<longrightarrow>
      (truthy draftId \<noteq> None \<longrightarrow>
         never_earlier (table st) (table (snd (saveDraft e d draftId st))))
      \<and> never_earlier (table st) (table (snd (completeDraft e j st))))"
proof (intro conjI impI)
  assume a: "session_user e = Some u \<and> truthy draftId = Some i \<and> fst (saveDraft e d draftId st) \<noteq> None"
  then have "table (snd (saveDraft e d draftId st))
      = map (\<lambda>x. if row_id x = i \<and> user_id x = u then update_row e d x else x) (table st)"
    using saveDraft_update_served [of e u draftId i d st] by simp
  then show "map last_updated (table (snd (saveDraft e d draftId st)))
        = map (\<lambda>r. if row_id r = i \<and> user_id r = u then clock e else last_updated r) (table st)"
    by (simp add: update_row_def comp_def if_distrib [of last_updated] cong: if_cong)
next
  assume "request e = Reaches"
  then show "map last_updated (table (snd (completeDraft e j st)))
        = map (\<lambda>r. if row_id r = j then clock e else last_updated r) (table st)"
    by (simp add: completeDraft_served complete_row_def comp_def if_distrib [of last_updated]
          cong: if_cong)
next
  assume "session_user e = Some u \<and> truthy draftId = None \<and> request e = Reaches"
  then show "table (snd (saveDraft e d draftId st)) = table st @ [new_row e u d]"
    by (simp add: saveDraft_create_served)
next
  show "last_updated (new_row e u d) = db_clock e" by (simp add: new_row_def)
next
  assume a: "\<forall>r \<in> set (table st). last_updated r \<le> clock e"
     and "truthy draftId \<noteq> None"
  then obtain i' where i': "truthy draftId = Some i'" by auto
  have same: "never_earlier (table st) (table st)"
    unfolding never_earlier_def by (simp add: list_all2_same)
  show "never_earlier (table st) (table (snd (saveDraft e d draftId st)))"
  proof (cases "fst (saveDraft e d draftId st)")
    case None
    then have "snd (saveDraft e d draftId st) = st"
      by (simp add: saveDraft_def split: sum.splits prod.splits)
    with same show ?thesis by simp
  next
    case (Some k)
    then obtain u' where u': "session_user e = Some u'"
      by (cases "session_user e") (simp_all add: saveDraft_def saveDraft_try_def)
    from Some have "fst (saveDraft e d draftId st) \<noteq> None" by simp
    from saveDraft_update_served [OF u' i' this]
    have "table (snd (saveDraft e d draftId st))
      = map (\<lambda>x. if row_id x = i' \<and> user_id x = u' then update_row e d x else x) (table st)"
      by simp
    moreover have "never_earlier (table st)
       (map (\<lambda>x. if row_id x = i' \<and> user_id x = u' then update_row e d x else x) (table st))"
      using a by (intro never_earlier_map) (simp add: update_row_def)
    ultimately show ?thesis by simp
  qed
next
  assume a: "\<forall>r \<in> set (table st). last_updated r \<le> clock e"
  have same: "never_earlier (table st) (table st)"
    unfolding never_earlier_def by (simp add: list_all2_same)
  show "never_earlier (table st) (table (snd (completeDraft e j st)))"
  proof (cases "request e = Reaches")
    case True
    have "never_earlier (table st)
       (map (\<lambda>r. if row_id r = j then complete_row e r else r) (table st))"
      using a by (intro never_earlier_map) (simp add: complete_row_def)
    with True show ?thesis by (simp add: completeDraft_served)
  next
    case False
    with same show ?thesis by (simp add: completeDraft_unserved)
  qed
qed

theorem last_updated_follows_clock_witness:
  "map last_updated (table (snd (saveDraft (online (Some ''A'') 9) 5 (Some ''d1'')
       (a_hook [a_row ''d1'' ''A'' 4 Draft, a_row ''d2'' ''A'' 6 Draft] [])))) = [9, 6]
   \<and> map last_updated (table (snd (completeDraft (online (Some ''A'') 9) ''d2''
       (a_hook [a_row ''d1'' ''A'' 4 Draft, a_row ''d2'' ''A'' 6 Draft] [])))) = [4, 9]
   \<and> table (snd (saveDraft (online (Some ''A'') 9) 5 None
       (a_hook [a_row ''d1'' ''A'' 4 Draft, a_row ''d2'' ''A'' 6 Draft] [])))
      = [a_row ''d1'' ''A'' 4 Draft, a_row ''d2'' ''A'' 6 Draft, (a_row ''d9'' ''A'' 9 Draft)\<lparr>data := 5\<rparr>]
   \<and> never_earlier [a_row ''d1'' ''A'' 4 Draft, a_row ''d2'' ''A'' 6 Draft]
        (table (snd (saveDraft (online (Some ''A'') 9) 5 (Some ''d1'')
       (a_hook [a_row ''d1'' ''A'' 4 Draft, a_row ''d2'' ''A'' 6 Draft] []))))"
  using last_updated_follows_clock [of "online (Some ''A'') 9" "''A''" "Some ''d1''" "''d1''" 5
          "a_hook [a_row ''d1'' ''A'' 4 Draft, a_row ''d2'' ''A'' 6 Draft] []" "''d2''"]
        last_updated_follows_clock [of "online (Some ''A'') 9" "''A''" None "''d1''" 5
          "a_hook [a_row ''d1'' ''A'' 4 Draft, a_row ''d2'' ''A'' 6 Draft] []" "''d2''"]
  by (simp add: sample_defs hook_defs)

text \<open>
  Claim C7 as stated fails: the stored \<open>last_updated\<close> of \<open>d1\<close> is 10, the caller's clock
  reads 3 (a clock set back, or another device whose clock is behind), the update
  succeeds and \<open>last_updated\<close> is 3.
\<close>

theorem last_updated_goes_back_counterexample:
  "fst (saveDraft (online (Some ''A'') 3) 5 (Some ''d1'') (a_hook [a_row ''d1'' ''A'' 10 Draft] []))
     = Some ''d1''
   \<and> map last_updated (table (snd (saveDraft (online (Some ''A'') 3) 5 (Some ''d1'')
        (a_hook [a_row ''d1'' ''A'' 10 Draft] [])))) = [3]
   \<and> map last_updated (table (a_hook [a_row ''d1'' ''A'' 10 Draft] [])) = [10]"
  by (simp add: sample_defs hook_defs)

subsection \<open>The audit logger\<close>

lemma update_row_log_ok: "update_row (e\<lparr>log_ok := b\<rparr>) = update_row e"
  by (intro ext) (simp add: update_row_def sent_data_def)

lemma new_row_log_ok: "new_row (e\<lparr>log_ok := b\<rparr>) = new_row e"
  by (intro ext) (simp add: new_row_def sent_data_def)

lemma saveDraft_write_log_ok [simp]:
  "saveDraft_write (e\<lparr>log_ok := b\<rparr>) u d draftId tbl = saveDraft_write e u d draftId tbl"
  by (simp only: saveDraft_write_def update_row_log_ok new_row_log_ok)

text \<open>
  Claim C8, for the audit logger as the spec describes it. When the logger fails to
  record the event (\<open>log_ok\<close> is false), a \<open>saveDraft\<close> whose table request succeeded still
  returns the id of the row written, a served \<open>completeDraft\<close> or \<open>deleteDraft\<close> still
  returns \<open>true\<close>, and in every environment the three results are those of the same call
  with a logger as the environment has it.
\<close>

theorem logger_failure_keeps_success:
  "(session_user e = Some u
      \<and> await_request (request e) (saveDraft_write e u d draftId (table st)) = Inr (r, tbl) \<longrightarrow>
        fst (saveDraft (e\<lparr>log_ok := False\<rparr>) d draftId st) = Some (row_id r)
      \<and> table (snd (saveDraft (e\<lparr>log_ok := False\<rparr>) d draftId st)) = tbl)
   \<and> (request e = Reaches \<longrightarrow>
        fst (completeDraft (e\<lparr>log_ok := False\<rparr>) i st)
      \<and> fst (deleteDraft (e\<lparr>log_ok := False\<rparr>) i st))
   \<and> fst (saveDraft (e\<lparr>log_ok := False\<rparr>) d draftId st) = fst (saveDraft e d draftId st)
   \<and> fst (completeDraft (e\<lparr>log_ok := False\<rparr>) i st) = fst (completeDraft e i st)
   \<and> fst (deleteDraft (e\<lparr>log_ok := False\<rparr>) i st) = fst (deleteDraft e i st)"
proof (intro conjI impI)
  assume a: "session_user e = Some u
      \<and> await_request (request e) (saveDraft_write e u d draftId (table st)) = Inr (r, tbl)"
  then show "fst (saveDraft (e\<lparr>log_ok := False\<rparr>) d draftId st) = Some (row_id r)"
    by (simp add: saveDraft_def saveDraft_try_def)
  from a show "table (snd (saveDraft (e\<lparr>log_ok := False\<rparr>) d draftId st)) = tbl"
    by (simp add: saveDraft_def saveDraft_try_def)
next
  assume "request e = Reaches"
  then show "fst (completeDraft (e\<lparr>log_ok := False\<rparr>) i st)"
    by (simp add: completeDraft_served)
next
  assume "request e = Reaches"
  then show "fst (deleteDraft (e\<lparr>log_ok := False\<rparr>) i st)"
    by (simp add: deleteDraft_served)
next
  show "fst (saveDraft (e\<lparr>log_ok := False\<rparr>) d draftId st) = fst (saveDraft e d draftId st)"
    by (simp add: saveDraft_def saveDraft_try_def split: option.splits sum.splits prod.splits)
next
  show "fst (completeDraft (e\<lparr>log_ok := False\<rparr>) i st) = fst (completeDraft e i st)"
    by (cases "request e") (simp_all add: completeDraft_def completeDraft_try_def await_request_def)
next
  show "fst (deleteDraft (e\<lparr>log_ok := False\<rparr>) i st) = fst (deleteDraft e i st)"
    by (cases "request e") (simp_all add: deleteDraft_def deleteDraft_try_def await_request_def)
qed

theorem logger_failure_keeps_success_witness:
  "fst (saveDraft ((online (Some ''A'') 9)\<lparr>log_ok := False\<rparr>) 5 (Some ''d1'')
          (a_hook [a_row ''d1'' ''A'' 4 Draft] [])) = Some ''d1''
   \<and> fst (saveDraft ((online (Some ''A'') 9)\<lparr>log_ok := False\<rparr>) 5 None
          (a_hook [a_row ''d1'' ''A'' 4 Draft] [])) = Some ''d9''
   \<and> fst (completeDraft ((online (Some ''A'') 9)\<lparr>log_ok := False\<rparr>) ''d1''
          (a_hook [a_row ''d1'' ''A'' 4 Draft] []))
   \<and> fst (deleteDraft ((online (Some ''A'') 9)\<lparr>log_ok := False\<rparr>) ''d1''
          (a_hook [a_row ''d1'' ''A'' 4 Draft] []))
   \<and> audit (snd (deleteDraft ((online (Some ''A'') 9)\<lparr>log_ok := False\<rparr>) ''d1''
          (a_hook [a_row ''d1'' ''A'' 4 Draft] []))) = [(deleted_event ''d1'', False)]"
  using logger_failure_keeps_success [of "online (Some ''A'') 9" "''A''" 5 "Some ''d1''"
          "a_hook [a_row ''d1'' ''A'' 4 Draft] []"
          "(a_row ''d1'' ''A'' 9 Draft)\<lparr>data := 5, created_at := 4\<rparr>"
          "[(a_row ''d1'' ''A'' 9 Draft)\<lparr>data := 5, created_at := 4\<rparr>]" "''d1''"]
        logger_failure_keeps_success [of "online (Some ''A'') 9" "''A''" 5 None
          "a_hook [a_row ''d1'' ''A'' 4 Draft] []"
          "(a_row ''d9'' ''A'' 9 Draft)\<lparr>data := 5\<rparr>"
          "[a_row ''d1'' ''A'' 4 Draft, (a_row ''d9'' ''A'' 9 Draft)\<lparr>data := 5\<rparr>]" "''d1''"]
  by (simp add: sample_defs hook_defs deleted_event_def)

end
